theory Spec2Isabelle
  imports Main "HOL-Library.Sublist"
begin

section \<open>Strings built by the notebook\<close>

text \<open>
  The notebook \<^verbatim>\<open>deeplabcut_workshop_tutorial.ipynb\<close> is a sequence of code cells run in
  document order by one Python kernel. Paths are Python \<^verbatim>\<open>str\<close> values, modelled as
  \<^typ>\<open>string\<close>. An f-string field \<^verbatim>\<open>{shuffle}\<close> holding an \<^verbatim>\<open>int\<close> is rendered by
  \<^verbatim>\<open>str\<close>: decimal digits, most significant first, with a leading minus sign for a
  negative number.
\<close>

type_synonym path = string

definition digit_char :: "nat \<Rightarrow> char" where
  "digit_char d = ''0123456789'' ! d"

fun nat_str :: "nat \<Rightarrow> string" where
  "nat_str n = (if n < 10 then [digit_char n] else nat_str (n div 10) @ [digit_char (n mod 10)])"

definition int_str :: "int \<Rightarrow> string" where
  "int_str i = (if i < 0 then CHR ''-'' # nat_str (nat (- i)) else nat_str (nat i))"

text \<open>
  The project-configuration cell: \<^verbatim>\<open>path_config_file =
  '/content/behavior-and-calcium-imaging-workshop/'+ProjectFolderName+'/config.yaml'\<close>.
\<close>

definition workshop_root :: path where
  "workshop_root = ''/content/behavior-and-calcium-imaging-workshop/''"

definition config_path :: "string \<Rightarrow> path" where
  "config_path pfn = workshop_root @ pfn @ ''/config.yaml''"

text \<open>
  The two f-strings of the pose-configuration cell. The first has the fields
  \<^verbatim>\<open>{ProjectFolderName}\<close> and \<^verbatim>\<open>{shuffle}\<close>, the second only \<^verbatim>\<open>{ProjectFolderName}\<close>:
  its text spells \<^verbatim>\<open>shuffle2\<close> literally.
\<close>

definition pose_cfg_path_of :: "string \<Rightarrow> int \<Rightarrow> path" where
  "pose_cfg_path_of pfn sh =
     workshop_root @ pfn @ ''/dlc-models/iteration-5/ss_vs_sscwJan30-trainset95shuffle''
       @ int_str sh @ ''/train/pose_cfg.yaml''"

definition checkpoint_of :: "string \<Rightarrow> path" where
  "checkpoint_of pfn =
     workshop_root @ pfn
       @ ''/old_dlc-models/iteration-5/ss_vs_sscwJan30-trainset95shuffle2/train/snapshot-100000''"

section \<open>Python values and library calls\<close>

text \<open>
  Exceptions are values. \<open>FileNotFoundError\<close> is what the builtin \<^verbatim>\<open>open\<close> raises for a
  missing file, \<open>TypeError\<close> what an item assignment raises on an object that is not a
  mapping, \<open>NameError\<close> what reading an unbound global raises. Every other exception
  comes out of a library call and is whatever the library raised.
\<close>

datatype error =
    FileNotFoundError path
  | TypeError
  | NameError string
  | KeyboardInterrupt
  | LibraryError string

text \<open>
  What \<^verbatim>\<open>yaml.safe_load\<close> builds. A Python \<^verbatim>\<open>dict\<close> keeps its keys in insertion
  order, so a mapping is an association list. A scalar that is neither a string, an
  integer, a boolean nor \<^verbatim>\<open>None\<close> (a float, a date) is kept by its YAML text.
\<close>

datatype ykey = KStr string | KInt int | KBool bool | KNone

datatype yaml =
    YNone
  | YBool bool
  | YInt int
  | YStr string
  | YOther string
  | YSeq "yaml list"
  | YMap "(ykey \<times> yaml) list"

text \<open>
  \<^verbatim>\<open>d[k] = v\<close> on a \<^verbatim>\<open>dict\<close>: an existing key keeps its position and gets the new value,
  a new key is appended.
\<close>

fun dict_setitem :: "(ykey \<times> yaml) list \<Rightarrow> ykey \<Rightarrow> yaml \<Rightarrow> (ykey \<times> yaml) list" where
  "dict_setitem [] k v = [(k, v)]"
| "dict_setitem ((k', v') # d) k v =
     (if k' = k then (k, v) # d else (k', v') # dict_setitem d k v)"

text \<open>
  \<^verbatim>\<open>obj[k] = v\<close> for whatever \<^verbatim>\<open>safe_load\<close> returned: only a mapping supports item
  assignment with a string key; a list, a scalar and \<^verbatim>\<open>None\<close> raise \<^verbatim>\<open>TypeError\<close>.
\<close>

fun setitem :: "yaml \<Rightarrow> ykey \<Rightarrow> yaml \<Rightarrow> error + yaml" where
  "setitem (YMap d) k v = Inr (YMap (dict_setitem d k v))"
| "setitem _ k v = Inl TypeError"

text \<open>The six DeepLabCut operations, each with the arguments the notebook passes.\<close>

datatype dlc_call =
    create_training_dataset path string string
  | train_network path int int int int
  | evaluate_network path bool "int list"
  | analyze_videos path "path list" string int
  | plot_trajectories path "path list" string int
  | create_labeled_video path "path list" string int


text \<open>An object a library hands back (a figure, an axes, an image, a video frame).\<close>

datatype obj = Obj nat

text \<open>
  Every call the notebook makes outside its own code, with its arguments: shell lines
  (\<^verbatim>\<open>!\<close>), IPython magics (\<^verbatim>\<open>%\<close>), imports, the builtin \<^verbatim>\<open>open\<close>, and library functions.
  \<open>Call\<close> is a library function called with literal arguments whose result the
  notebook at most prints.
\<close>

datatype event =
    Shell "string list"
  | Magic string
  | Import string
  | Call string "string list"
  | Dlc dlc_call
  | Open path string
  | Safe_load string
  | Dump yaml path
  | Subplots "nat list"
  | Image_open path
  | Imshow obj obj
  | Set_title obj string
  | Axis obj string
  | Fig_to_html obj
  | Display string
  | VideoCapture path
  | Read obj
  | CvtColor "obj option"

type_synonym fs = "path \<rightharpoonup> string"

text \<open>
  The libraries are not part of the repository: their behaviour is a parameter. A call
  whose result the notebook ignores may change the file system and may raise
  (\<open>effect\<close>); the others return a value or raise. \<open>yaml_dump\<close> gives the text it
  wrote to the stream and the exception it ended with, if any. \<^verbatim>\<open>plt.subplots(r, c)\<close>
  returns a figure and a two-dimensional array of axes (a list of rows),
  \<^verbatim>\<open>plt.subplots()\<close> a figure and one axes. \<open>video_read\<close> is
  \<^verbatim>\<open>VideoCapture.read\<close>: a success flag and a frame, which is \<^verbatim>\<open>None\<close> when no frame
  could be grabbed.
\<close>

record libs =
  effect :: "event \<Rightarrow> fs \<Rightarrow> error option \<times> fs"
  yaml_safe_load :: "string \<Rightarrow> error + yaml"
  yaml_dump :: "yaml \<Rightarrow> string \<times> error option"
  plt_subplots_grid :: "nat \<Rightarrow> nat \<Rightarrow> error + obj \<times> obj list list"
  plt_subplots_single :: "error + obj \<times> obj"
  PIL_Image_open :: "fs \<Rightarrow> path \<Rightarrow> error + obj"
  mpld3_fig_to_html :: "obj \<Rightarrow> error + string"
  cv2_VideoCapture :: "fs \<Rightarrow> path \<Rightarrow> error + obj"
  video_read :: "fs \<Rightarrow> obj \<Rightarrow> error + bool \<times> obj option"
  cv2_cvtColor :: "obj option \<Rightarrow> error + obj"

section \<open>The kernel state\<close>

text \<open>
  The state one run threads through the cells: the file system, the calls issued so far
  (oldest first), and the global variables one cell assigns and a later cell reads.
  A variable that is not bound is \<open>None\<close>. Variables read only in the cell that
  assigns them (\<^verbatim>\<open>pose_cfg_path\<close>, \<^verbatim>\<open>checkpoint\<close>, \<^verbatim>\<open>root\<close>, \<^verbatim>\<open>frame\<close>, ...) are
  \<open>let\<close>-bound in that cell's definition; names bound by \<^verbatim>\<open>import\<close> are not tracked,
  an import being an event that may raise.
\<close>

record kernel =
  files :: fs
  calls :: "event list"
  ProjectFolderName :: "string option"
  VideoType :: "string option"
  videofile_path :: "path list option"
  path_config_file :: "path option"
  shuffle :: "int option"

text \<open>
  A statement runs on a kernel and ends normally with a value (\<open>Inr\<close>) or with an
  exception (\<open>Inl\<close>); either way it leaves a kernel behind. An exception skips the rest
  of the cell and of the run: the notebook has no \<^verbatim>\<open>try\<close> statement.
\<close>

type_synonym 'a py = "kernel \<Rightarrow> (error + 'a) \<times> kernel"

definition py_return :: "'a \<Rightarrow> 'a py" where
  "py_return x k = (Inr x, k)"

definition py_bind :: "'a py \<Rightarrow> ('a \<Rightarrow> 'b py) \<Rightarrow> 'b py" where
  "py_bind m f k = (case m k of (Inl e, k') \<Rightarrow> (Inl e, k') | (Inr x, k') \<Rightarrow> f x k')"

definition py_seq :: "unit py \<Rightarrow> 'a py \<Rightarrow> 'a py" where
  "py_seq m m' = py_bind m (\<lambda>_. m')"

definition py_lift :: "error + 'a \<Rightarrow> 'a py" where
  "py_lift r k = (r, k)"

definition issue :: "event \<Rightarrow> kernel \<Rightarrow> kernel" where
  "issue e k = k\<lparr>calls := calls k @ [e]\<rparr>"

text \<open>Reading a global: \<^verbatim>\<open>NameError\<close> when it is not bound.\<close>

definition read_var :: "(kernel \<Rightarrow> 'a option) \<Rightarrow> string \<Rightarrow> 'a py" where
  "read_var var name k = (case var k of None \<Rightarrow> (Inl (NameError name), k) | Some v \<Rightarrow> (Inr v, k))"

text \<open>A call whose result is ignored.\<close>

definition do_call :: "libs \<Rightarrow> event \<Rightarrow> unit py" where
  "do_call L e k =
     (case effect L e (files k) of
        (None, f') \<Rightarrow> (Inr (), (issue e k)\<lparr>files := f'\<rparr>)
      | (Some err, f') \<Rightarrow> (Inl err, (issue e k)\<lparr>files := f'\<rparr>))"

text \<open>A call whose result is used and that leaves the file system alone.\<close>

definition ask :: "event \<Rightarrow> (fs \<Rightarrow> error + 'a) \<Rightarrow> 'a py" where
  "ask e f k = (f (files k), issue e k)"

text \<open>An assignment to globals.\<close>

definition assign :: "(kernel \<Rightarrow> kernel) \<Rightarrow> unit py" where
  "assign upd k = (Inr (), upd k)"

text \<open>Statements, and cells, one after the other.\<close>

fun py_all :: "unit py list \<Rightarrow> unit py" where
  "py_all [] = py_return ()"
| "py_all (m # ms) = py_seq m (py_all ms)"

text \<open>
  The builtin \<^verbatim>\<open>open\<close>. Mode \<^verbatim>\<open>'r'\<close> raises \<^verbatim>\<open>FileNotFoundError\<close> for a missing file
  and otherwise gives the stream, here its content. Mode \<^verbatim>\<open>'w'\<close> creates the file or
  truncates it to length zero at once. Directories and permissions are not modelled.
\<close>

definition open_read :: "path \<Rightarrow> string py" where
  "open_read p k =
     (case files k p of
        None \<Rightarrow> (Inl (FileNotFoundError p), issue (Open p ''r'') k)
      | Some c \<Rightarrow> (Inr c, issue (Open p ''r'') k))"

definition open_write :: "path \<Rightarrow> unit py" where
  "open_write p k = (Inr (), (issue (Open p ''w'') k)\<lparr>files := (files k)(p \<mapsto> [])\<rparr>)"

text \<open>
  \<^verbatim>\<open>yaml.dump(content, file)\<close> inside \<^verbatim>\<open>with open(p, 'w') as file\<close>: what the dumper
  wrote is appended to the file, whether or not it then raised; leaving the
  \<^verbatim>\<open>with\<close> block closes the file and lets the exception through.
\<close>

definition dump_call :: "libs \<Rightarrow> yaml \<Rightarrow> path \<Rightarrow> unit py" where
  "dump_call L y p k =
     (case yaml_dump L y of
        (t, r) \<Rightarrow>
          ((case r of None \<Rightarrow> Inr () | Some err \<Rightarrow> Inl err),
           (issue (Dump y p) k)
             \<lparr>files := (files k)(p \<mapsto> (case files k p of None \<Rightarrow> t | Some c \<Rightarrow> c @ t))\<rparr>))"

section \<open>The cells\<close>

text \<open>Step 1: the four shell lines that install the packages.\<close>

definition cell_install :: "libs \<Rightarrow> unit py" where
  "cell_install L = py_all
     [do_call L (Shell [''pip'', ''install'', ''tensorflow==2.12.1'', ''tensorpack>=0.11'',
                        ''tf_slim>=1.1.0'']),
      do_call L (Shell [''pip'', ''install'', ''torch==2.3.1'', ''torchvision'', ''--index-url'',
                        ''https://download.pytorch.org/whl/cu118'']),
      do_call L (Shell [''pip'', ''install'', ''git+https://github.com/DeepLabCut/DeepLabCut.git'']),
      do_call L (Shell [''ln'', ''-svf'',
                        ''/usr/local/lib/python3.11/dist-packages/nvidia/*/lib/*.so*'',
                        ''/usr/local/lib/python3.11/dist-packages/tensorflow''])]"

text \<open>The GPU check. What \<^verbatim>\<open>print\<close> shows is not modelled.\<close>

definition cell_gpu_check :: "libs \<Rightarrow> unit py" where
  "cell_gpu_check L = py_all
     [do_call L (Import ''tensorflow''),
      do_call L (Import ''torch''),
      do_call L (Call ''torch.cuda.is_available'' []),
      do_call L (Call ''torch.zeros'' [''5'', ''cuda:0'']),
      do_call L (Call ''tf.config.list_physical_devices'' [''GPU''])]"

text \<open>Step 2: mount Google Drive and copy the workshop folder.\<close>

definition cell_drive :: "libs \<Rightarrow> unit py" where
  "cell_drive L = py_all
     [do_call L (Import ''google.colab.drive''),
      do_call L (Import ''shutil''),
      do_call L (Call ''drive.mount'' [''/content/drive'']),
      do_call L (Call ''shutil.copytree''
                   [''/content/drive/MyDrive/behavior-and-calcium-imaging-workshop'',
                    ''/content/behavior-and-calcium-imaging-workshop''])]"

text \<open>
  Step 3: the variables the user customises. The notebook's literals are
  \<^verbatim>\<open>'workshop-network-2025'\<close> and \<^verbatim>\<open>'mp4'\<close>; the cell is modelled for any two strings.
\<close>

definition videos :: "path list" where
  "videos = [''/content/behavior-and-calcium-imaging-workshop/data/behavior-videos'']"

definition cell_project :: "string \<Rightarrow> string \<Rightarrow> unit py" where
  "cell_project pfn vt = py_all
     [assign (\<lambda>k. k\<lparr>ProjectFolderName := Some pfn\<rparr>),
      assign (\<lambda>k. k\<lparr>VideoType := Some vt\<rparr>),
      assign (\<lambda>k. k\<lparr>videofile_path := Some videos\<rparr>)]"

definition cell_import_deeplabcut :: "libs \<Rightarrow> unit py" where
  "cell_import_deeplabcut L = do_call L (Import ''deeplabcut'')"

definition cell_path_config :: "unit py" where
  "cell_path_config =
     py_bind (read_var ProjectFolderName ''ProjectFolderName'') (\<lambda>pfn.
       assign (\<lambda>k. k\<lparr>path_config_file := Some (config_path pfn)\<rparr>))"

text \<open>Step 4.\<close>

definition cell_create_training_dataset :: "libs \<Rightarrow> unit py" where
  "cell_create_training_dataset L =
     py_bind (read_var path_config_file ''path_config_file'') (\<lambda>cfg.
       do_call L (Dlc (create_training_dataset cfg ''resnet_50'' ''imgaug'')))"

text \<open>
  The read-modify-write of the pose-configuration cell, for the two strings the cell
  has built: load the file, set \<^verbatim>\<open>init_weights\<close>, dump the mapping over the same file.
\<close>

definition pose_cfg_edit :: "libs \<Rightarrow> path \<Rightarrow> string \<Rightarrow> unit py" where
  "pose_cfg_edit L pose_cfg_path checkpoint =
     py_bind (open_read pose_cfg_path) (\<lambda>text.
     py_bind (ask (Safe_load text) (\<lambda>_. yaml_safe_load L text)) (\<lambda>pose_cfg_content.
     py_bind (py_lift (setitem pose_cfg_content (KStr ''init_weights'') (YStr checkpoint)))
       (\<lambda>pose_cfg_content'.
     py_seq (open_write pose_cfg_path)
            (dump_call L pose_cfg_content' pose_cfg_path))))"

text \<open>
  The pose-configuration cell: \<^verbatim>\<open>import yaml\<close>, the assignment of \<^verbatim>\<open>shuffle\<close> (the
  notebook's literal is \<^verbatim>\<open>1\<close>), the two f-strings, then the read-modify-write.
\<close>

definition cell_pose_cfg :: "libs \<Rightarrow> int \<Rightarrow> unit py" where
  "cell_pose_cfg L sh =
     py_seq (do_call L (Import ''yaml''))
    (py_seq (assign (\<lambda>k. k\<lparr>shuffle := Some sh\<rparr>))
    (py_bind (read_var ProjectFolderName ''ProjectFolderName'') (\<lambda>pfn.
     py_bind (read_var shuffle ''shuffle'') (\<lambda>s.
     let pose_cfg_path = pose_cfg_path_of pfn s in
     py_bind (read_var ProjectFolderName ''ProjectFolderName'') (\<lambda>pfn'.
     let checkpoint = checkpoint_of pfn' in
       pose_cfg_edit L pose_cfg_path checkpoint)))))"

text \<open>Steps 5 to 7 and the two calls after them.\<close>

definition cell_train :: "libs \<Rightarrow> unit py" where
  "cell_train L =
     py_bind (read_var path_config_file ''path_config_file'') (\<lambda>cfg.
     py_bind (read_var shuffle ''shuffle'') (\<lambda>s.
       do_call L (Dlc (train_network cfg s 10 50 100))))"

definition cell_evaluate :: "libs \<Rightarrow> unit py" where
  "cell_evaluate L =
     py_seq (do_call L (Magic ''matplotlib notebook''))
    (py_bind (read_var path_config_file ''path_config_file'') (\<lambda>cfg.
     py_bind (read_var shuffle ''shuffle'') (\<lambda>s.
       do_call L (Dlc (evaluate_network cfg True [s])))))"

definition cell_analyze :: "libs \<Rightarrow> unit py" where
  "cell_analyze L =
     py_bind (read_var path_config_file ''path_config_file'') (\<lambda>cfg.
     py_bind (read_var videofile_path ''videofile_path'') (\<lambda>vs.
     py_bind (read_var VideoType ''VideoType'') (\<lambda>vt.
     py_bind (read_var shuffle ''shuffle'') (\<lambda>s.
       do_call L (Dlc (analyze_videos cfg vs vt s))))))"

definition cell_install_mpld3 :: "libs \<Rightarrow> unit py" where
  "cell_install_mpld3 L = do_call L (Shell [''pip'', ''install'', ''mpld3''])"

definition cell_plot_trajectories :: "libs \<Rightarrow> unit py" where
  "cell_plot_trajectories L =
     py_bind (read_var path_config_file ''path_config_file'') (\<lambda>cfg.
     py_bind (read_var videofile_path ''videofile_path'') (\<lambda>vs.
     py_bind (read_var VideoType ''VideoType'') (\<lambda>vt.
     py_bind (read_var shuffle ''shuffle'') (\<lambda>s.
       do_call L (Dlc (plot_trajectories cfg vs vt s))))))"

definition cell_create_labeled_video :: "libs \<Rightarrow> unit py" where
  "cell_create_labeled_video L =
     py_bind (read_var path_config_file ''path_config_file'') (\<lambda>cfg.
     py_bind (read_var videofile_path ''videofile_path'') (\<lambda>vs.
     py_bind (read_var VideoType ''VideoType'') (\<lambda>vt.
     py_bind (read_var shuffle ''shuffle'') (\<lambda>s.
       do_call L (Dlc (create_labeled_video cfg vs vt s))))))"

text \<open>
  The plot cell. The loop runs over \<^verbatim>\<open>zip(axes.ravel(), images, titles)\<close>:
  \<^verbatim>\<open>ravel\<close> flattens the array of axes row by row, and \<^verbatim>\<open>zip\<close> stops with the shortest
  of its arguments, two of which are four-element list literals.
\<close>

definition plot_root :: path where
  "plot_root =
     ''/content/behavior-and-calcium-imaging-workshop/data/behavior-videos/plot-poses/day0croppedshortdownsampled''"

definition images :: "path list" where
  "images = [plot_root @ ''/plot-likelihood.png'', plot_root @ ''/hist.png'',
             plot_root @ ''/plot.png'', plot_root @ ''/trajectory.png'']"

definition titles :: "string list" where
  "titles = [''Plot Likelihood'', ''Histogram'', ''Plot'', ''Trajectory'']"

definition plot_body :: "libs \<Rightarrow> obj \<times> path \<times> string \<Rightarrow> unit py" where
  "plot_body L = (\<lambda>(ax, image, title).
     py_bind (ask (Image_open image) (\<lambda>f. PIL_Image_open L f image)) (\<lambda>img.
     py_seq (do_call L (Imshow ax img))
    (py_seq (do_call L (Set_title ax title))
            (do_call L (Axis ax ''off'')))))"

fun for_each :: "('a \<Rightarrow> unit py) \<Rightarrow> 'a list \<Rightarrow> unit py" where
  "for_each body [] = py_return ()"
| "for_each body (x # xs) = py_seq (body x) (for_each body xs)"

definition cell_show_plots :: "libs \<Rightarrow> unit py" where
  "cell_show_plots L =
     py_seq (do_call L (Import ''matplotlib.pyplot''))
    (py_seq (do_call L (Import ''PIL.Image''))
    (py_seq (do_call L (Import ''mpld3''))
    (py_seq (do_call L (Import ''IPython.core.display''))
    (py_bind (ask (Subplots [2, 2]) (\<lambda>_. plt_subplots_grid L 2 2)) (\<lambda>(fig, axes).
     py_seq (for_each (plot_body L) (zip (concat axes) (zip images titles)))
    (py_bind (ask (Fig_to_html fig) (\<lambda>_. mpld3_fig_to_html L fig)) (\<lambda>html_plot.
            do_call L (Display html_plot))))))))"

text \<open>
  The labelled-video cell. The success flag \<^verbatim>\<open>ret\<close> of \<^verbatim>\<open>video_capture.read()\<close> is
  bound and never read; \<^verbatim>\<open>frame\<close> goes to \<^verbatim>\<open>cv2.cvtColor\<close> as it is.
\<close>

definition labelled_video_path_of :: "int \<Rightarrow> path" where
  "labelled_video_path_of sh =
     ''/content/behavior-and-calcium-imaging-workshop/data/behavior-videos/day0croppedshortdownsampledDLC_resnet50_ss_vs_sscwJan30shuffle''
       @ int_str sh @ ''_100100_p60_labeled.mp4''"

definition show_first_frame :: "libs \<Rightarrow> path \<Rightarrow> unit py" where
  "show_first_frame L labelled_video_path =
     py_bind (ask (VideoCapture labelled_video_path)
                (\<lambda>f. cv2_VideoCapture L f labelled_video_path)) (\<lambda>video_capture.
     py_bind (ask (Read video_capture) (\<lambda>f. video_read L f video_capture)) (\<lambda>(ret, frame).
     py_bind (ask (CvtColor frame) (\<lambda>_. cv2_cvtColor L frame)) (\<lambda>frame_rgb.
     py_bind (ask (Subplots []) (\<lambda>_. plt_subplots_single L)) (\<lambda>(fig, ax).
     py_seq (do_call L (Imshow ax frame_rgb))
    (py_seq (do_call L (Axis ax ''off''))
    (py_bind (ask (Fig_to_html fig) (\<lambda>_. mpld3_fig_to_html L fig)) (\<lambda>html_plot.
            do_call L (Display html_plot))))))))"

definition cell_show_video :: "libs \<Rightarrow> unit py" where
  "cell_show_video L =
     py_seq (do_call L (Import ''cv2''))
    (py_seq (do_call L (Import ''matplotlib.pyplot''))
    (py_bind (read_var shuffle ''shuffle'') (\<lambda>s.
       show_first_frame L (labelled_video_path_of s))))"

section \<open>The notebook\<close>

text \<open>
  The code cells in document order. A run executes them one after the other and stops
  at the first exception. \<open>pfn\<close>, \<open>vt\<close> and \<open>sh\<close> are the three literals a user
  is told to customise.
\<close>

definition notebook :: "libs \<Rightarrow> string \<Rightarrow> string \<Rightarrow> int \<Rightarrow> unit py list" where
  "notebook L pfn vt sh =
     [cell_install L,
      cell_gpu_check L,
      cell_drive L,
      cell_project pfn vt,
      cell_import_deeplabcut L,
      cell_path_config,
      cell_create_training_dataset L,
      cell_pose_cfg L sh,
      cell_train L,
      cell_evaluate L,
      cell_analyze L,
      cell_install_mpld3 L,
      cell_plot_trajectories L,
      cell_show_plots L,
      cell_create_labeled_video L,
      cell_show_video L]"

definition run_notebook :: "libs \<Rightarrow> string \<Rightarrow> string \<Rightarrow> int \<Rightarrow> unit py" where
  "run_notebook L pfn vt sh = py_all (notebook L pfn vt sh)"

section \<open>A stand-in for the libraries\<close>

text \<open>
  To run the model on concrete inputs the libraries need a concrete behaviour. This
  stand-in knows one YAML document, dumps a flat mapping in flow style, decodes every
  non-empty file as an image, grabs a frame from a non-empty video file and none from
  an empty or missing one, and lets \<^verbatim>\<open>cv2.cvtColor\<close> raise on \<^verbatim>\<open>None\<close>.
\<close>

definition demo_text :: string where
  "demo_text = ''{init_weights: imagenet, net_type: resnet_50}''"

definition demo_safe_load :: "string \<Rightarrow> error + yaml" where
  "demo_safe_load c =
     (if c = demo_text
      then Inr (YMap [(KStr ''init_weights'', YStr ''imagenet''), (KStr ''net_type'', YStr ''resnet_50'')])
      else if c = [] then Inr YNone
      else Inl (LibraryError ''yaml.YAMLError''))"

fun show_key :: "ykey \<Rightarrow> string" where
  "show_key (KStr s) = s"
| "show_key (KInt i) = int_str i"
| "show_key (KBool b) = (if b then ''true'' else ''false'')"
| "show_key KNone = ''null''"

fun show_scalar :: "yaml \<Rightarrow> string" where
  "show_scalar (YStr s) = s"
| "show_scalar (YInt i) = int_str i"
| "show_scalar (YBool b) = (if b then ''true'' else ''false'')"
| "show_scalar (YOther s) = s"
| "show_scalar _ = ''null''"

fun show_items :: "(ykey \<times> yaml) list \<Rightarrow> string" where
  "show_items [] = []"
| "show_items [(k, v)] = show_key k @ '': '' @ show_scalar v"
| "show_items ((k, v) # d) = show_key k @ '': '' @ show_scalar v @ '', '' @ show_items d"

definition demo_dump :: "yaml \<Rightarrow> string \<times> error option" where
  "demo_dump y = (case y of YMap d \<Rightarrow> (''{'' @ show_items d @ ''}'', None) | _ \<Rightarrow> (show_scalar y, None))"

definition demo_video :: path where
  "demo_video = labelled_video_path_of 1"

definition demo_libs :: libs where
  "demo_libs =
     \<lparr>effect = (\<lambda>e f. (None, f)),
      yaml_safe_load = demo_safe_load,
      yaml_dump = demo_dump,
      plt_subplots_grid = (\<lambda>r c. Inr (Obj 0, [[Obj 1, Obj 2], [Obj 3, Obj 4]])),
      plt_subplots_single = Inr (Obj 0, Obj 1),
      PIL_Image_open = (\<lambda>f p. case f p of None \<Rightarrow> Inl (FileNotFoundError p)
                         | Some c \<Rightarrow> if c = [] then Inl (LibraryError ''UnidentifiedImageError'')
                                     else Inr (Obj 5)),
      mpld3_fig_to_html = (\<lambda>fig. Inr ''<div></div>''),
      cv2_VideoCapture = (\<lambda>f p. Inr (Obj 6)),
      video_read = (\<lambda>f cap. case f demo_video of None \<Rightarrow> Inr (False, None)
                         | Some c \<Rightarrow> if c = [] then Inr (False, None) else Inr (True, Some (Obj 7))),
      cv2_cvtColor = (\<lambda>frame. case frame of None \<Rightarrow> Inl (LibraryError ''cv2.error'')
                         | Some fr \<Rightarrow> Inr (Obj 8))\<rparr>"

text \<open>
  A fresh kernel over a given file system, and the file system of a project on which
  every step has what it reads: the pose configuration of shuffle 1, the four plots
  and the labelled video.
\<close>

definition fresh :: "fs \<Rightarrow> kernel" where
  "fresh f = \<lparr>files = f, calls = [], ProjectFolderName = None, VideoType = None,
              videofile_path = None, path_config_file = None, shuffle = None\<rparr>"

definition demo_files :: "(path \<times> string) list" where
  "demo_files =
     [(pose_cfg_path_of ''workshop-network-2025'' 1, demo_text),
      (images ! 0, ''PNG''), (images ! 1, ''PNG''), (images ! 2, ''PNG''), (images ! 3, ''PNG''),
      (demo_video, ''MP4'')]"

definition demo_kernel :: kernel where
  "demo_kernel = fresh (map_of demo_files)"

text \<open>
  Three variations: a dumper that writes a few characters and then raises, a training
  call that is interrupted from the keyboard, and the kernel as the configuration cells
  leave it.
\<close>

definition failing_dump_libs :: libs where
  "failing_dump_libs = demo_libs\<lparr>yaml_dump := (\<lambda>y. (''{init'', Some (LibraryError ''OSError'')))\<rparr>"

fun is_train :: "event \<Rightarrow> bool" where
  "is_train (Dlc (train_network _ _ _ _ _)) = True"
| "is_train _ = False"

definition interrupted_libs :: libs where
  "interrupted_libs =
     demo_libs\<lparr>effect := (\<lambda>e f. if is_train e then (Some KeyboardInterrupt, f) else (None, f))\<rparr>"

definition ready_kernel :: kernel where
  "ready_kernel =
     demo_kernel\<lparr>ProjectFolderName := Some ''workshop-network-2025'', VideoType := Some ''mp4'',
                  videofile_path := Some videos,
                  path_config_file := Some (config_path ''workshop-network-2025''),
                  shuffle := Some 1\<rparr>"




section \<open>Observations on a run\<close>

text \<open>
  What the statements about whole runs look at. A \<open>mark\<close> is a call that matters for
  the order of the pipeline: one of the six DeepLabCut operations, or
  \<^verbatim>\<open>display(HTML(...))\<close>, the call that shows a figure. \<open>stages\<close> is the list of
  marks in the order of the cells. \<open>vars_of\<close> collects the five tracked globals.
\<close>

datatype mark = Pipeline dlc_call | Shown

fun mark_of :: "event \<Rightarrow> mark option" where
  "mark_of (Dlc c) = Some (Pipeline c)"
| "mark_of (Display _) = Some Shown"
| "mark_of _ = None"

definition marks :: "event list \<Rightarrow> mark list" where
  "marks es = List.map_filter mark_of es"

definition stages :: "string \<Rightarrow> string \<Rightarrow> int \<Rightarrow> mark list" where
  "stages pfn vt sh =
     [Pipeline (create_training_dataset (config_path pfn) ''resnet_50'' ''imgaug''),
      Pipeline (train_network (config_path pfn) sh 10 50 100),
      Pipeline (evaluate_network (config_path pfn) True [sh]),
      Pipeline (analyze_videos (config_path pfn) videos vt sh),
      Pipeline (plot_trajectories (config_path pfn) videos vt sh),
      Shown,
      Pipeline (create_labeled_video (config_path pfn) videos vt sh),
      Shown]"

type_synonym vars = "string option \<times> string option \<times> path list option \<times> path option \<times> int option"

definition vars_of :: "kernel \<Rightarrow> vars" where
  "vars_of k = (ProjectFolderName k, VideoType k, videofile_path k, path_config_file k, shuffle k)"


text \<open>
  Three ways to describe a statement \<open>m\<close>, used to carry facts from the cells to the
  run. \<open>io m S\<close>: \<open>m\<close> neither reads nor writes a tracked global; what it returns,
  the files it leaves and the calls it issues depend on the files alone, and the marks
  among its calls are \<open>S\<close>, or a prefix of \<open>S\<close> when it raises. \<open>triple P m S Q\<close>:
  from globals satisfying \<open>P\<close>, \<open>m\<close> issues the marks \<open>S\<close> and ends with globals
  satisfying \<open>Q\<close>, or raises after a prefix of \<open>S\<close>. \<open>rel n m n'\<close>: two runs of
  \<open>m\<close> on the same files, with globals that agree up to level \<open>n\<close>, end alike.
\<close>

definition io :: "'a py \<Rightarrow> mark list \<Rightarrow> bool" where
  "io m S \<longleftrightarrow>
     (\<forall>f. \<exists>r f' es.
        (\<forall>k. files k = f \<longrightarrow> m k = (r, k\<lparr>files := f', calls := calls k @ es\<rparr>))
        \<and> (case r of Inl e \<Rightarrow> prefix (marks es) S | Inr x \<Rightarrow> marks es = S))"

definition triple :: "(vars \<Rightarrow> bool) \<Rightarrow> unit py \<Rightarrow> mark list \<Rightarrow> (vars \<Rightarrow> bool) \<Rightarrow> bool" where
  "triple P m S Q \<longleftrightarrow>
     (\<forall>k. P (vars_of k) \<longrightarrow>
        (\<exists>es. calls (snd (m k)) = calls k @ es
           \<and> (case fst (m k) of Inl e \<Rightarrow> prefix (marks es) S
               | Inr x \<Rightarrow> marks es = S \<and> Q (vars_of (snd (m k))))))"

fun agree :: "nat \<Rightarrow> vars \<Rightarrow> vars \<Rightarrow> bool" where
  "agree n (a, b, c, d, e) (a', b', c', d', e') \<longleftrightarrow>
     (1 \<le> n \<longrightarrow> a = a' \<and> b = b' \<and> c = c') \<and> (2 \<le> n \<longrightarrow> d = d') \<and> (3 \<le> n \<longrightarrow> e = e')"

definition rel :: "nat \<Rightarrow> unit py \<Rightarrow> nat \<Rightarrow> bool" where
  "rel n m n' \<longleftrightarrow>
     (\<forall>k1 k2. files k1 = files k2 \<and> agree n (vars_of k1) (vars_of k2) \<longrightarrow>
        fst (m k1) = fst (m k2)
        \<and> files (snd (m k1)) = files (snd (m k2))
        \<and> (\<exists>es. calls (snd (m k1)) = calls k1 @ es \<and> calls (snd (m k2)) = calls k2 @ es)
        \<and> (fst (m k1) = Inr () \<longrightarrow> agree n' (vars_of (snd (m k1))) (vars_of (snd (m k2)))))"

definition env1 :: "string \<Rightarrow> string \<Rightarrow> vars \<Rightarrow> bool" where
  "env1 pfn vt = (\<lambda>(a, b, c, d, e). a = Some pfn \<and> b = Some vt \<and> c = Some videos)"

definition env2 :: "string \<Rightarrow> string \<Rightarrow> vars \<Rightarrow> bool" where
  "env2 pfn vt = (\<lambda>(a, b, c, d, e). a = Some pfn \<and> b = Some vt \<and> c = Some videos
                     \<and> d = Some (config_path pfn))"

definition env3 :: "string \<Rightarrow> string \<Rightarrow> int \<Rightarrow> vars \<Rightarrow> bool" where
  "env3 pfn vt sh = (\<lambda>(a, b, c, d, e). a = Some pfn \<and> b = Some vt \<and> c = Some videos
                     \<and> d = Some (config_path pfn) \<and> e = Some sh)"

section \<open>Decimal rendering is injective\<close>

declare nat_str.simps [simp del]

lemma digit_char_inj: "a < 10 \<Longrightarrow> b < 10 \<Longrightarrow> digit_char a = digit_char b \<Longrightarrow> a = b"
proof -
  assume a: "a < 10" and b: "b < 10" and e: "digit_char a = digit_char b"
  from a have "a \<in> {0,1,2,3,4,5,6,7,8,9}" by auto
  moreover from b have "b \<in> {0,1,2,3,4,5,6,7,8,9}" by auto
  ultimately show ?thesis using e by (auto simp: digit_char_def)
qed

lemma digit_char_not_minus: "d < 10 \<Longrightarrow> digit_char d \<noteq> CHR ''-''"
proof -
  assume "d < 10"
  then have "d \<in> {0,1,2,3,4,5,6,7,8,9}" by auto
  then show ?thesis by (auto simp: digit_char_def)
qed

lemma nat_str_nonempty: "nat_str n \<noteq> []"
  by (subst nat_str.simps) simp

lemma nat_str_hd: "hd (nat_str n) \<noteq> CHR ''-''"
proof (induction n rule: nat_str.induct)
  case (1 n)
  show ?case
  proof (cases "n < 10")
    case True
    then show ?thesis by (subst nat_str.simps) (simp add: digit_char_not_minus)
  next
    case False
    with 1 have "hd (nat_str (n div 10)) \<noteq> CHR ''-''" by simp
    with False show ?thesis
      by (subst nat_str.simps) (simp add: nat_str_nonempty)
  qed
qed

lemma nat_str_inj: "nat_str n = nat_str m \<Longrightarrow> n = m"
proof (induction n arbitrary: m rule: nat_str.induct)
  case (1 n)
  show ?case
  proof (cases "n < 10")
    case n: True
    show ?thesis
    proof (cases "m < 10")
      case True
      with n 1(2) show ?thesis
        by (subst (asm) nat_str.simps, subst (asm) (2) nat_str.simps) (simp add: digit_char_inj)
    next
      case False
      have "length (nat_str m) \<ge> 2"
        using False nat_str_nonempty[of "m div 10"]
        by (subst nat_str.simps) (simp add: Suc_le_eq)
      moreover have "length (nat_str n) = 1" using n by (subst nat_str.simps) simp
      ultimately show ?thesis using 1(2) by simp
    qed
  next
    case n: False
    show ?thesis
    proof (cases "m < 10")
      case True
      have "length (nat_str n) \<ge> 2"
        using n nat_str_nonempty[of "n div 10"]
        by (subst nat_str.simps) (simp add: Suc_le_eq)
      moreover have "length (nat_str m) = 1" using True by (subst nat_str.simps) simp
      ultimately show ?thesis using 1(2) by simp
    next
      case False
      have "nat_str (n div 10) @ [digit_char (n mod 10)] = nat_str (m div 10) @ [digit_char (m mod 10)]"
        using 1(2) n False by (subst (asm) nat_str.simps, subst (asm) (2) nat_str.simps) simp
      then have e: "nat_str (n div 10) = nat_str (m div 10)" and d: "digit_char (n mod 10) = digit_char (m mod 10)"
        by simp_all
      from 1(1)[OF n e] have "n div 10 = m div 10" .
      moreover from d have "n mod 10 = m mod 10" by (intro digit_char_inj) simp_all
      ultimately show ?thesis by (metis div_mult_mod_eq)
    qed
  qed
qed

lemma int_str_inj: "int_str i = int_str j \<Longrightarrow> i = j"
proof -
  assume e: "int_str i = int_str j"
  have neg: "\<And>a b. a < 0 \<Longrightarrow> \<not> b < 0 \<Longrightarrow> int_str a \<noteq> int_str b"
  proof -
    fix a b :: int assume "a < 0" "\<not> b < 0"
    then have "hd (int_str a) = CHR ''-''" "hd (int_str b) \<noteq> CHR ''-''"
      by (simp_all add: int_str_def nat_str_hd)
    then show "int_str a \<noteq> int_str b" by metis
  qed
  show ?thesis
  proof (cases "i < 0"; cases "j < 0")
    assume "i < 0" "j < 0"
    with e have "nat (- i) = nat (- j)" by (simp add: int_str_def nat_str_inj)
    with \<open>i < 0\<close> \<open>j < 0\<close> show ?thesis by simp
  next
    assume "i < 0" "\<not> j < 0" with neg e show ?thesis by blast
  next
    assume "\<not> i < 0" "j < 0" with neg[of j i] e show ?thesis by simp
  next
    assume "\<not> i < 0" "\<not> j < 0"
    with e have "nat i = nat j" by (simp add: int_str_def nat_str_inj)
    with \<open>\<not> i < 0\<close> \<open>\<not> j < 0\<close> show ?thesis by simp
  qed
qed

lemma int_str_1: "int_str 1 = ''1''" by (simp add: int_str_def digit_char_def nat_str.simps)
lemma int_str_2: "int_str 2 = ''2''" by (simp add: int_str_def digit_char_def nat_str.simps)

section \<open>The read-modify-write of the pose configuration\<close>

lemmas py_defs = py_bind_def py_seq_def py_return_def py_lift_def ask_def
  do_call_def assign_def read_var_def open_read_def open_write_def dump_call_def issue_def

lemma map_of_dict_setitem: "map_of (dict_setitem d k v) = (map_of d)(k \<mapsto> v)"
  by (induction d k v rule: dict_setitem.induct) (auto simp: fun_eq_iff)

lemma keys_dict_setitem:
  "map fst (dict_setitem d k v) = (if k \<in> fst ` set d then map fst d else map fst d @ [k])"
  by (induction d k v rule: dict_setitem.induct) auto

lemma pose_cfg_edit_ok:
  assumes "files k p = Some c" and "yaml_safe_load L c = Inr (YMap d)"
  shows "pose_cfg_edit L p ckpt k =
          ((case snd (yaml_dump L (YMap (dict_setitem d (KStr ''init_weights'') (YStr ckpt)))) of
              None \<Rightarrow> Inr () | Some e \<Rightarrow> Inl e),
           k\<lparr>files := (files k)(p \<mapsto> fst (yaml_dump L (YMap (dict_setitem d (KStr ''init_weights'') (YStr ckpt))))),
             calls := calls k @ [Open p ''r'', Safe_load c, Open p ''w'',
                        Dump (YMap (dict_setitem d (KStr ''init_weights'') (YStr ckpt))) p]\<rparr>)"
  using assms by (simp add: pose_cfg_edit_def py_defs split: prod.splits)

lemmas demo_defs = demo_libs_def demo_kernel_def fresh_def demo_files_def demo_text_def
  demo_safe_load_def demo_dump_def demo_video_def images_def plot_root_def titles_def
  pose_cfg_path_of_def checkpoint_of_def workshop_root_def labelled_video_path_of_def
  config_path_def videos_def int_str_def digit_char_def nat_str.simps

text \<open>
  C1. When the file at \<open>p\<close> loads as a mapping \<open>d\<close>, the read-modify-write issues
  four calls, the last one dumping \<open>d\<close> with \<^verbatim>\<open>init_weights\<close> set to the checkpoint
  string: as a mapping the dumped dictionary is \<open>d\<close> updated at that one key, every
  other key keeps its value, the keys keep their order (a new \<^verbatim>\<open>init_weights\<close> goes
  last), and the file ends up holding what the dumper wrote for that dictionary.
\<close>

theorem pose_cfg_edit_rewrites_only_init_weights:
  assumes "files k p = Some c" and "yaml_safe_load L c = Inr (YMap d)"
  shows "let d' = dict_setitem d (KStr ''init_weights'') (YStr ckpt);
             k' = snd (pose_cfg_edit L p ckpt k)
         in calls k' = calls k @ [Open p ''r'', Safe_load c, Open p ''w'', Dump (YMap d') p]
          \<and> files k' p = Some (fst (yaml_dump L (YMap d')))
          \<and> map_of d' = (map_of d)(KStr ''init_weights'' \<mapsto> YStr ckpt)
          \<and> map_of d' (KStr ''init_weights'') = Some (YStr ckpt)
          \<and> (\<forall>key. key \<noteq> KStr ''init_weights'' \<longrightarrow> map_of d' key = map_of d key)
          \<and> map fst d' = (if KStr ''init_weights'' \<in> fst ` set d then map fst d
                            else map fst d @ [KStr ''init_weights''])"
  using assms by (simp add: pose_cfg_edit_ok map_of_dict_setitem keys_dict_setitem Let_def)

theorem pose_cfg_edit_rewrites_only_init_weights_witness:
  "calls (snd (pose_cfg_edit demo_libs (pose_cfg_path_of ''workshop-network-2025'' 1)
                 (checkpoint_of ''workshop-network-2025'') demo_kernel))
     = [Open (pose_cfg_path_of ''workshop-network-2025'' 1) ''r'', Safe_load demo_text,
        Open (pose_cfg_path_of ''workshop-network-2025'' 1) ''w'',
        Dump (YMap [(KStr ''init_weights'', YStr (checkpoint_of ''workshop-network-2025'')),
                    (KStr ''net_type'', YStr ''resnet_50'')])
             (pose_cfg_path_of ''workshop-network-2025'' 1)]"
  using pose_cfg_edit_rewrites_only_init_weights [of demo_kernel "pose_cfg_path_of ''workshop-network-2025'' 1" demo_text demo_libs
      "[(KStr ''init_weights'', YStr ''imagenet''), (KStr ''net_type'', YStr ''resnet_50'')]"
      "checkpoint_of ''workshop-network-2025''"]
  by (simp add: demo_defs Let_def)

lemma pose_cfg_path_inj: "pose_cfg_path_of pfn sh = pose_cfg_path_of pfn sh' \<longleftrightarrow> sh = sh'"
  by (auto simp: pose_cfg_path_of_def dest: int_str_inj)

lemma cell_pose_cfg_unfold:
  assumes "ProjectFolderName k = Some pfn" and "effect L (Import ''yaml'') (files k) = (None, f1)"
  shows "cell_pose_cfg L sh k =
           pose_cfg_edit L (pose_cfg_path_of pfn sh) (checkpoint_of pfn)
             (k\<lparr>calls := calls k @ [Import ''yaml''], files := f1, shuffle := Some sh\<rparr>)"
  using assms by (simp add: cell_pose_cfg_def py_defs Let_def)

text \<open>
  C3. Once \<^verbatim>\<open>import yaml\<close> has returned, the pose-configuration cell run with any
  value \<open>sh\<close> of \<^verbatim>\<open>shuffle\<close> edits the file whose name carries \<open>sh\<close> and writes
  the one checkpoint string that spells \<^verbatim>\<open>shuffle2\<close>, whatever \<open>sh\<close> is. Different
  values of \<^verbatim>\<open>shuffle\<close> select different files. With the notebook's value 1 the file
  edited is the one of shuffle 1, which is not the one of shuffle 2 that the
  checkpoint names.
\<close>

theorem checkpoint_ignores_shuffle:
  assumes "ProjectFolderName k = Some pfn" and "effect L (Import ''yaml'') (files k) = (None, f1)"
  shows "cell_pose_cfg L sh k =
           pose_cfg_edit L
             (workshop_root @ pfn @ ''/dlc-models/iteration-5/ss_vs_sscwJan30-trainset95shuffle''
                @ int_str sh @ ''/train/pose_cfg.yaml'')
             (workshop_root @ pfn
                @ ''/old_dlc-models/iteration-5/ss_vs_sscwJan30-trainset95shuffle2/train/snapshot-100000'')
             (k\<lparr>calls := calls k @ [Import ''yaml''], files := f1, shuffle := Some sh\<rparr>)
       \<and> (pose_cfg_path_of pfn sh = pose_cfg_path_of pfn sh' \<longleftrightarrow> sh = sh')
       \<and> checkpoint_of pfn =
           workshop_root @ pfn @ ''/old_dlc-models/iteration-5/ss_vs_sscwJan30-trainset95shuffle''
             @ int_str 2 @ ''/train/snapshot-100000''
       \<and> pose_cfg_path_of pfn 1 =
           workshop_root @ pfn
             @ ''/dlc-models/iteration-5/ss_vs_sscwJan30-trainset95shuffle1/train/pose_cfg.yaml''
       \<and> pose_cfg_path_of pfn 1 \<noteq> pose_cfg_path_of pfn 2"
proof -
  have "cell_pose_cfg L sh k =
           pose_cfg_edit L (pose_cfg_path_of pfn sh) (checkpoint_of pfn)
             (k\<lparr>calls := calls k @ [Import ''yaml''], files := f1, shuffle := Some sh\<rparr>)"
    using assms by (rule cell_pose_cfg_unfold)
  moreover have "pose_cfg_path_of pfn sh = pose_cfg_path_of pfn sh' \<longleftrightarrow> sh = sh'"
    by (rule pose_cfg_path_inj)
  moreover have "pose_cfg_path_of pfn 1 \<noteq> pose_cfg_path_of pfn 2"
    by (simp add: pose_cfg_path_inj)
  ultimately show ?thesis
    by (simp add: pose_cfg_path_of_def checkpoint_of_def int_str_1 int_str_2)
qed

theorem checkpoint_ignores_shuffle_witness:
  "fst (cell_pose_cfg demo_libs 1 (demo_kernel\<lparr>ProjectFolderName := Some ''workshop-network-2025''\<rparr>))
     = Inr ()
   \<and> files (snd (cell_pose_cfg demo_libs 1
                (demo_kernel\<lparr>ProjectFolderName := Some ''workshop-network-2025''\<rparr>)))
       (pose_cfg_path_of ''workshop-network-2025'' 1)
     = Some (''{init_weights: '' @ checkpoint_of ''workshop-network-2025'' @ '', net_type: resnet_50}'')"
  using checkpoint_ignores_shuffle [of "demo_kernel\<lparr>ProjectFolderName := Some ''workshop-network-2025''\<rparr>"
      "''workshop-network-2025''" demo_libs "map_of demo_files" 1 2]
  by (simp add: demo_defs pose_cfg_edit_def py_defs)

text \<open>
  C4. Nothing in the read-modify-write handles an exception. A missing file ends it
  with \<^verbatim>\<open>FileNotFoundError\<close> after the one \<^verbatim>\<open>open\<close>; an exception of the loader comes
  out as it is; a loaded value that is not a mapping is not validated and fails at the
  item assignment with \<^verbatim>\<open>TypeError\<close>; an exception of the dumper comes out as it is.
  Whether a file exists at the checkpoint path makes no difference to the outcome.
\<close>

theorem pose_cfg_edit_errors_propagate:
  "(files k p = None \<longrightarrow>
      pose_cfg_edit L p ckpt k = (Inl (FileNotFoundError p), k\<lparr>calls := calls k @ [Open p ''r'']\<rparr>))
 \<and> (files k p = Some c \<and> yaml_safe_load L c = Inl e \<longrightarrow>
      pose_cfg_edit L p ckpt k = (Inl e, k\<lparr>calls := calls k @ [Open p ''r'', Safe_load c]\<rparr>))
 \<and> (files k p = Some c \<and> yaml_safe_load L c = Inr y \<and> (\<forall>d. y \<noteq> YMap d) \<longrightarrow>
      pose_cfg_edit L p ckpt k = (Inl TypeError, k\<lparr>calls := calls k @ [Open p ''r'', Safe_load c]\<rparr>))
 \<and> (files k p = Some c \<and> yaml_safe_load L c = Inr (YMap d)
      \<and> snd (yaml_dump L (YMap (dict_setitem d (KStr ''init_weights'') (YStr ckpt)))) = Some e \<longrightarrow>
      fst (pose_cfg_edit L p ckpt k) = Inl e)
 \<and> (ckpt \<noteq> p \<longrightarrow>
      fst (pose_cfg_edit L p ckpt (k\<lparr>files := (files k)(ckpt := x)\<rparr>)) = fst (pose_cfg_edit L p ckpt k))"
proof (intro conjI impI)
  assume "files k p = None"
  then show "pose_cfg_edit L p ckpt k = (Inl (FileNotFoundError p), k\<lparr>calls := calls k @ [Open p ''r'']\<rparr>)"
    by (simp add: pose_cfg_edit_def py_defs)
next
  assume "files k p = Some c \<and> yaml_safe_load L c = Inl e"
  then show "pose_cfg_edit L p ckpt k = (Inl e, k\<lparr>calls := calls k @ [Open p ''r'', Safe_load c]\<rparr>)"
    by (simp add: pose_cfg_edit_def py_defs)
next
  assume a: "files k p = Some c \<and> yaml_safe_load L c = Inr y \<and> (\<forall>d. y \<noteq> YMap d)"
  then have "setitem y (KStr ''init_weights'') (YStr ckpt) = Inl TypeError"
    by (cases y) simp_all
  with a show "pose_cfg_edit L p ckpt k = (Inl TypeError, k\<lparr>calls := calls k @ [Open p ''r'', Safe_load c]\<rparr>)"
    by (simp add: pose_cfg_edit_def py_defs)
next
  assume "files k p = Some c \<and> yaml_safe_load L c = Inr (YMap d)
      \<and> snd (yaml_dump L (YMap (dict_setitem d (KStr ''init_weights'') (YStr ckpt)))) = Some e"
  then show "fst (pose_cfg_edit L p ckpt k) = Inl e"
    by (simp add: pose_cfg_edit_ok)
next
  assume "ckpt \<noteq> p"
  then show "fst (pose_cfg_edit L p ckpt (k\<lparr>files := (files k)(ckpt := x)\<rparr>)) = fst (pose_cfg_edit L p ckpt k)"
    by (simp add: pose_cfg_edit_def py_defs split: option.splits sum.splits prod.splits)
qed

theorem pose_cfg_edit_errors_propagate_witness:
  "fst (pose_cfg_edit demo_libs ''/nowhere'' ''ckpt'' demo_kernel) = Inl (FileNotFoundError ''/nowhere'')
 \<and> fst (pose_cfg_edit demo_libs ''p'' ''ckpt'' (fresh [''p'' \<mapsto> ''- not: [a mapping'']))
      = Inl (LibraryError ''yaml.YAMLError'')
 \<and> fst (pose_cfg_edit demo_libs ''p'' ''ckpt'' (fresh [''p'' \<mapsto> []])) = Inl TypeError
 \<and> fst (pose_cfg_edit failing_dump_libs ''p'' ''ckpt'' (fresh [''p'' \<mapsto> demo_text]))
      = Inl (LibraryError ''OSError'')
 \<and> fst (pose_cfg_edit demo_libs ''p'' ''ckpt'' ((fresh [''p'' \<mapsto> demo_text, ''ckpt'' \<mapsto> ''weights''])
          \<lparr>files := (files (fresh [''p'' \<mapsto> demo_text, ''ckpt'' \<mapsto> ''weights'']))(''ckpt'' := None)\<rparr>))
      = Inr ()"
  using pose_cfg_edit_errors_propagate [where k = demo_kernel and p = "''/nowhere''" and L = demo_libs and ckpt = "''ckpt''"]
    pose_cfg_edit_errors_propagate [where k = "fresh [''p'' \<mapsto> ''- not: [a mapping'']" and p = "''p''" and L = demo_libs
          and ckpt = "''ckpt''" and c = "''- not: [a mapping''" and e = "LibraryError ''yaml.YAMLError''"]
    pose_cfg_edit_errors_propagate [where k = "fresh [''p'' \<mapsto> []]" and p = "''p''" and L = demo_libs
          and ckpt = "''ckpt''" and c = "[]" and y = YNone]
    pose_cfg_edit_errors_propagate [where k = "fresh [''p'' \<mapsto> demo_text]" and p = "''p''" and L = failing_dump_libs
          and ckpt = "''ckpt''" and c = demo_text and e = "LibraryError ''OSError''"
          and d = "[(KStr ''init_weights'', YStr ''imagenet''), (KStr ''net_type'', YStr ''resnet_50'')]"]
    pose_cfg_edit_errors_propagate [where k = "fresh [''p'' \<mapsto> demo_text, ''ckpt'' \<mapsto> ''weights'']" and p = "''p''"
          and L = demo_libs and ckpt = "''ckpt''" and x = None]
  by (simp add: demo_defs failing_dump_libs_def pose_cfg_edit_def py_defs)

text \<open>
  C5. The rewrite is not atomic. When the dumper raises, the file has already been
  opened for writing, which left it empty; the exception comes out of the cell and the
  file holds exactly what the dumper had written until then, so it differs from the
  original whenever that text does. Nothing restores the original content.
\<close>

theorem pose_cfg_edit_not_atomic:
  assumes "files k p = Some c" and "yaml_safe_load L c = Inr (YMap d)"
    and "yaml_dump L (YMap (dict_setitem d (KStr ''init_weights'') (YStr ckpt))) = (t, Some e)"
  shows "fst (pose_cfg_edit L p ckpt k) = Inl e
       \<and> calls (snd (pose_cfg_edit L p ckpt k)) =
           calls k @ [Open p ''r'', Safe_load c, Open p ''w'',
                      Dump (YMap (dict_setitem d (KStr ''init_weights'') (YStr ckpt))) p]
       \<and> files (snd (open_write p k)) p = Some []
       \<and> files (snd (pose_cfg_edit L p ckpt k)) p = Some t
       \<and> (t \<noteq> c \<longrightarrow> files (snd (pose_cfg_edit L p ckpt k)) p \<noteq> files k p)"
  using assms by (simp add: pose_cfg_edit_ok open_write_def)

theorem pose_cfg_edit_not_atomic_witness:
  "fst (pose_cfg_edit failing_dump_libs ''p'' ''ckpt'' (fresh [''p'' \<mapsto> demo_text]))
      = Inl (LibraryError ''OSError'')
 \<and> files (snd (pose_cfg_edit failing_dump_libs ''p'' ''ckpt'' (fresh [''p'' \<mapsto> demo_text]))) ''p''
      = Some ''{init''
 \<and> files (fresh [''p'' \<mapsto> demo_text]) ''p'' = Some demo_text
 \<and> ''{init'' \<noteq> demo_text"
  using pose_cfg_edit_not_atomic [where k = "fresh [''p'' \<mapsto> demo_text]" and p = "''p''" and L = failing_dump_libs
          and ckpt = "''ckpt''" and c = demo_text and e = "LibraryError ''OSError''" and t = "''{init''"
          and d = "[(KStr ''init_weights'', YStr ''imagenet''), (KStr ''net_type'', YStr ''resnet_50'')]"]
  by (simp add: demo_defs failing_dump_libs_def)

section \<open>Interrupting the training call\<close>

lemma py_all_raise: "fst (m k) = Inl e \<Longrightarrow> py_all (m # ms) k = m k"
  by (cases "m k") (simp add: py_defs)

text \<open>
  C8. An exception raised inside \<^verbatim>\<open>deeplabcut.train_network\<close>, a keyboard interrupt
  for one, comes out of the training cell as it is. The cell issues the one call and
  nothing after it: the kernel is left as the library left it, with no retry and no
  cleanup, and no later cell of the run is executed.
\<close>

theorem train_interrupt_propagates:
  assumes "path_config_file k = Some cfg" and "shuffle k = Some s"
    and "effect L (Dlc (train_network cfg s 10 50 100)) (files k) = (Some e, f')"
  shows "cell_train L k =
           (Inl e, k\<lparr>calls := calls k @ [Dlc (train_network cfg s 10 50 100)], files := f'\<rparr>)
       \<and> py_all (cell_train L # rest) k = cell_train L k"
proof -
  have 1: "cell_train L k =
           (Inl e, k\<lparr>calls := calls k @ [Dlc (train_network cfg s 10 50 100)], files := f'\<rparr>)"
    using assms by (simp add: cell_train_def py_defs)
  then have "fst (cell_train L k) = Inl e" by simp
  then have "py_all (cell_train L # rest) k = cell_train L k" by (rule py_all_raise)
  with 1 show ?thesis by simp
qed

theorem train_interrupt_propagates_witness:
  "fst (py_all [cell_train interrupted_libs, cell_evaluate interrupted_libs] ready_kernel)
      = Inl KeyboardInterrupt
 \<and> calls (snd (py_all [cell_train interrupted_libs, cell_evaluate interrupted_libs] ready_kernel))
      = [Dlc (train_network (config_path ''workshop-network-2025'') 1 10 50 100)]"
  using train_interrupt_propagates [where k = ready_kernel and cfg = "config_path ''workshop-network-2025''" and s = 1
          and L = interrupted_libs and e = KeyboardInterrupt and f' = "map_of demo_files"
          and rest = "[cell_evaluate interrupted_libs]"]
  by (simp add: ready_kernel_def interrupted_libs_def demo_libs_def demo_kernel_def fresh_def)

section \<open>The first frame of the labelled video\<close>

lemma show_first_frame_none:
  assumes "cv2_VideoCapture L (files k) p = Inr cap" and "video_read L (files k) cap = Inr (ret, None)"
    and "cv2_cvtColor L None = Inl e"
  shows "show_first_frame L p k =
           (Inl e, k\<lparr>calls := calls k @ [VideoCapture p, Read cap, CvtColor None]\<rparr>)"
  using assms by (simp add: show_first_frame_def py_defs)

lemma show_first_frame_flag:
  "show_first_frame (L\<lparr>video_read := \<lambda>f c. map_sum id (apfst g) (video_read L f c)\<rparr>) p k
     = show_first_frame L p k"
  by (simp add: show_first_frame_def py_defs split: sum.splits prod.splits)

lemma show_first_frame_needs_frame:
  assumes "cv2_cvtColor L None = Inl e" and "fst (show_first_frame L p k) = Inr ()"
  shows "\<exists>cap ret fr. cv2_VideoCapture L (files k) p = Inr cap
           \<and> video_read L (files k) cap = Inr (ret, Some fr)"
proof (cases "cv2_VideoCapture L (files k) p")
  case (Inl a)
  with assms(2) show ?thesis by (simp add: show_first_frame_def py_defs)
next
  case cap: (Inr cap)
  show ?thesis
  proof (cases "video_read L (files k) cap")
    case (Inl a)
    with cap assms(2) show ?thesis by (simp add: show_first_frame_def py_defs)
  next
    case (Inr rf)
    obtain ret fr where rf: "rf = (ret, fr)" by (cases rf)
    show ?thesis
    proof (cases fr)
      case None
      with cap Inr rf assms show ?thesis by (simp add: show_first_frame_none)
    next
      case (Some a)
      with cap Inr rf show ?thesis by simp
    qed
  qed
qed

text \<open>
  C10. When \<^verbatim>\<open>read\<close> yields no frame and \<^verbatim>\<open>cv2.cvtColor\<close> raises on \<^verbatim>\<open>None\<close>, the
  cell ends with that exception right after the conversion is called. The flag
  \<^verbatim>\<open>ret\<close> is never consulted: changing the flags that \<^verbatim>\<open>read\<close> returns changes
  nothing. So the cell can only complete when the capture was created and a frame was
  read.
\<close>

theorem show_first_frame_ignores_ret:
  "(cv2_VideoCapture L (files k) p = Inr cap \<and> video_read L (files k) cap = Inr (ret, None)
      \<and> cv2_cvtColor L None = Inl e \<longrightarrow>
      show_first_frame L p k =
        (Inl e, k\<lparr>calls := calls k @ [VideoCapture p, Read cap, CvtColor None]\<rparr>))
 \<and> show_first_frame (L\<lparr>video_read := \<lambda>f c. map_sum id (apfst g) (video_read L f c)\<rparr>) p k
      = show_first_frame L p k
 \<and> (cv2_cvtColor L None = Inl e \<and> fst (show_first_frame L p k) = Inr () \<longrightarrow>
      (\<exists>cap ret fr. cv2_VideoCapture L (files k) p = Inr cap
           \<and> video_read L (files k) cap = Inr (ret, Some fr)))"
  using show_first_frame_none show_first_frame_flag show_first_frame_needs_frame by blast

theorem show_first_frame_ignores_ret_witness:
  "fst (show_first_frame demo_libs demo_video (fresh Map.empty)) = Inl (LibraryError ''cv2.error'')
 \<and> fst (show_first_frame demo_libs demo_video demo_kernel) = Inr ()
 \<and> video_read demo_libs (files demo_kernel) (Obj 6) = Inr (True, Some (Obj 7))"
  using show_first_frame_ignores_ret [where L = demo_libs and k = "fresh Map.empty" and p = demo_video and cap = "Obj 6"
          and ret = False and e = "LibraryError ''cv2.error''"]
    show_first_frame_ignores_ret [where L = demo_libs and k = demo_kernel and p = demo_video
          and e = "LibraryError ''cv2.error''"]
  by (simp add: demo_defs show_first_frame_def py_defs)

section \<open>Statements that touch no tracked global\<close>

lemma marks_append: "marks (xs @ ys) = marks xs @ marks ys"
  by (simp add: marks_def map_filter_def)

lemma marks_Nil: "marks [] = []"
  by (simp add: marks_def map_filter_def)

lemma marks_single: "marks [e] = (case mark_of e of None \<Rightarrow> [] | Some m \<Rightarrow> [m])"
  by (simp add: marks_def map_filter_def split: option.splits)

lemma io_return: "io (py_return x) []"
  unfolding io_def
proof
  fix f
  have "\<forall>k. files k = f \<longrightarrow> py_return x k = (Inr x, k\<lparr>files := f, calls := calls k @ []\<rparr>)"
    by (simp add: py_return_def)
  then show "\<exists>r f' es. (\<forall>k. files k = f \<longrightarrow> py_return x k = (r, k\<lparr>files := f', calls := calls k @ es\<rparr>))
        \<and> (case r of Inl e \<Rightarrow> prefix (marks es) [] | Inr x \<Rightarrow> marks es = [])"
    by (intro exI[of _ "Inr x"] exI[of _ f] exI[of _ "[]"]) (simp add: marks_Nil)
qed

lemma io_lift: "io (py_lift r) []"
  unfolding io_def
proof
  fix f
  have "\<forall>k. files k = f \<longrightarrow> py_lift r k = (r, k\<lparr>files := f, calls := calls k @ []\<rparr>)"
    by (simp add: py_lift_def)
  then show "\<exists>r' f' es. (\<forall>k. files k = f \<longrightarrow> py_lift r k = (r', k\<lparr>files := f', calls := calls k @ es\<rparr>))
        \<and> (case r' of Inl e \<Rightarrow> prefix (marks es) [] | Inr x \<Rightarrow> marks es = [])"
    by (intro exI[of _ r] exI[of _ f] exI[of _ "[]"]) (simp add: marks_Nil split: sum.splits)
qed

lemma io_do_call: "io (do_call L e) (marks [e])"
  unfolding io_def
proof
  fix f
  obtain r f' where eff: "effect L e f = (r, f')" by (cases "effect L e f")
  have "\<forall>k. files k = f \<longrightarrow>
          do_call L e k = ((case r of None \<Rightarrow> Inr () | Some err \<Rightarrow> Inl err),
                           k\<lparr>files := f', calls := calls k @ [e]\<rparr>)"
    using eff by (simp add: do_call_def issue_def split: option.splits)
  then show "\<exists>r f' es. (\<forall>k. files k = f \<longrightarrow> do_call L e k = (r, k\<lparr>files := f', calls := calls k @ es\<rparr>))
        \<and> (case r of Inl x \<Rightarrow> prefix (marks es) (marks [e]) | Inr x \<Rightarrow> marks es = marks [e])"
    by (intro exI[of _ "case r of None \<Rightarrow> Inr () | Some err \<Rightarrow> Inl err"] exI[of _ f'] exI[of _ "[e]"])
       (simp split: option.splits)
qed

lemma io_ask: "io (ask e g) (marks [e])"
  unfolding io_def
proof
  fix f
  have "\<forall>k. files k = f \<longrightarrow> ask e g k = (g f, k\<lparr>files := f, calls := calls k @ [e]\<rparr>)"
    by (simp add: ask_def issue_def)
  then show "\<exists>r f' es. (\<forall>k. files k = f \<longrightarrow> ask e g k = (r, k\<lparr>files := f', calls := calls k @ es\<rparr>))
        \<and> (case r of Inl x \<Rightarrow> prefix (marks es) (marks [e]) | Inr x \<Rightarrow> marks es = marks [e])"
    by (intro exI[of _ "g f"] exI[of _ f] exI[of _ "[e]"]) (simp split: sum.splits)
qed

lemma io_open_read: "io (open_read p) []"
  unfolding io_def
proof
  fix f
  have "\<forall>k. files k = f \<longrightarrow>
          open_read p k = ((case f p of None \<Rightarrow> Inl (FileNotFoundError p) | Some c \<Rightarrow> Inr c),
                           k\<lparr>files := f, calls := calls k @ [Open p ''r'']\<rparr>)"
    by (simp add: open_read_def issue_def split: option.splits)
  then show "\<exists>r f' es. (\<forall>k. files k = f \<longrightarrow> open_read p k = (r, k\<lparr>files := f', calls := calls k @ es\<rparr>))
        \<and> (case r of Inl x \<Rightarrow> prefix (marks es) [] | Inr x \<Rightarrow> marks es = [])"
    by (intro exI[of _ "case f p of None \<Rightarrow> Inl (FileNotFoundError p) | Some c \<Rightarrow> Inr c"]
          exI[of _ f] exI[of _ "[Open p ''r'']"])
       (simp add: marks_single split: sum.splits)
qed

lemma io_open_write: "io (open_write p) []"
  unfolding io_def
proof
  fix f
  have "\<forall>k. files k = f \<longrightarrow>
          open_write p k = (Inr (), k\<lparr>files := f(p \<mapsto> []), calls := calls k @ [Open p ''w'']\<rparr>)"
    by (simp add: open_write_def issue_def)
  then show "\<exists>r f' es. (\<forall>k. files k = f \<longrightarrow> open_write p k = (r, k\<lparr>files := f', calls := calls k @ es\<rparr>))
        \<and> (case r of Inl x \<Rightarrow> prefix (marks es) [] | Inr x \<Rightarrow> marks es = [])"
    by (intro exI[of _ "Inr ()"] exI[of _ "f(p \<mapsto> [])"] exI[of _ "[Open p ''w'']"])
       (simp add: marks_single)
qed

lemma io_dump_call: "io (dump_call L y p) []"
  unfolding io_def
proof
  fix f
  obtain t r where d: "yaml_dump L y = (t, r)" by (cases "yaml_dump L y")
  have "\<forall>k. files k = f \<longrightarrow>
          dump_call L y p k = ((case r of None \<Rightarrow> Inr () | Some err \<Rightarrow> Inl err),
             k\<lparr>files := f(p \<mapsto> (case f p of None \<Rightarrow> t | Some c \<Rightarrow> c @ t)),
               calls := calls k @ [Dump y p]\<rparr>)"
    using d by (simp add: dump_call_def issue_def)
  then show "\<exists>r f' es. (\<forall>k. files k = f \<longrightarrow> dump_call L y p k = (r, k\<lparr>files := f', calls := calls k @ es\<rparr>))
        \<and> (case r of Inl x \<Rightarrow> prefix (marks es) [] | Inr x \<Rightarrow> marks es = [])"
    by (intro exI[of _ "case r of None \<Rightarrow> Inr () | Some err \<Rightarrow> Inl err"]
          exI[of _ "f(p \<mapsto> (case f p of None \<Rightarrow> t | Some c \<Rightarrow> c @ t))"] exI[of _ "[Dump y p]"])
       (simp add: marks_single split: sum.splits)
qed

lemma io_bind:
  assumes m: "io m S" and g: "\<And>x. io (g x) S'"
  shows "io (py_bind m g) (S @ S')"
  unfolding io_def
proof
  fix f
  from m obtain r f' es where
    run: "\<And>k. files k = f \<Longrightarrow> m k = (r, k\<lparr>files := f', calls := calls k @ es\<rparr>)"
    and mk: "case r of Inl e \<Rightarrow> prefix (marks es) S | Inr x \<Rightarrow> marks es = S"
    unfolding io_def by blast
  show "\<exists>r f' es. (\<forall>k. files k = f \<longrightarrow> py_bind m g k = (r, k\<lparr>files := f', calls := calls k @ es\<rparr>))
        \<and> (case r of Inl e \<Rightarrow> prefix (marks es) (S @ S') | Inr x \<Rightarrow> marks es = S @ S')"
  proof (cases r)
    case (Inl e)
    with run have "\<forall>k. files k = f \<longrightarrow> py_bind m g k = (Inl e, k\<lparr>files := f', calls := calls k @ es\<rparr>)"
      by (simp add: py_bind_def)
    moreover from mk Inl have "prefix (marks es) (S @ S')" by (simp add: prefix_prefix)
    ultimately show ?thesis
      by (intro exI[of _ "Inl e"] exI[of _ f'] exI[of _ es]) simp
  next
    case (Inr x)
    from g[of x] obtain r2 f2 es2 where
      run2: "\<And>k. files k = f' \<Longrightarrow> g x k = (r2, k\<lparr>files := f2, calls := calls k @ es2\<rparr>)"
      and mk2: "case r2 of Inl e \<Rightarrow> prefix (marks es2) S' | Inr y \<Rightarrow> marks es2 = S'"
      unfolding io_def by blast
    have "\<forall>k. files k = f \<longrightarrow> py_bind m g k = (r2, k\<lparr>files := f2, calls := calls k @ (es @ es2)\<rparr>)"
    proof (intro allI impI)
      fix k :: kernel assume fk: "files k = f"
      have "g x (k\<lparr>files := f', calls := calls k @ es\<rparr>)
              = (r2, (k\<lparr>files := f', calls := calls k @ es\<rparr>)\<lparr>files := f2,
                      calls := calls (k\<lparr>files := f', calls := calls k @ es\<rparr>) @ es2\<rparr>)"
        by (rule run2) simp
      with run[OF fk] Inr show "py_bind m g k = (r2, k\<lparr>files := f2, calls := calls k @ (es @ es2)\<rparr>)"
        by (simp add: py_bind_def)
    qed
    moreover from mk mk2 Inr
    have "case r2 of Inl e \<Rightarrow> prefix (marks (es @ es2)) (S @ S') | Inr y \<Rightarrow> marks (es @ es2) = S @ S'"
      by (simp add: marks_append split: sum.splits)
    ultimately show ?thesis
      by (intro exI[of _ r2] exI[of _ f2] exI[of _ "es @ es2"]) simp
  qed
qed

lemma io_seq: "io m S \<Longrightarrow> io m' S' \<Longrightarrow> io (py_seq m m') (S @ S')"
  unfolding py_seq_def by (rule io_bind)

lemma io_for_each: "(\<And>x. io (body x) []) \<Longrightarrow> io (for_each body xs) []"
proof (induction xs)
  case Nil
  show ?case by (simp add: io_return)
next
  case (Cons x xs)
  have "io (py_seq (body x) (for_each body xs)) ([] @ [])"
    by (rule io_seq) (use Cons in simp_all)
  then show ?case by simp
qed

lemma io_py_all: "(\<And>m. m \<in> set ms \<Longrightarrow> io m []) \<Longrightarrow> io (py_all ms) []"
proof (induction ms)
  case Nil
  show ?case by (simp add: io_return)
next
  case (Cons m ms)
  have "io (py_seq m (py_all ms)) ([] @ [])"
    by (rule io_seq) (use Cons in simp_all)
  then show ?case by simp
qed


lemma io_rel: "io m S \<Longrightarrow> rel n m n"
  unfolding rel_def
proof (intro allI impI)
  fix k1 k2 assume m: "io m S"
    and a: "files k1 = files k2 \<and> agree n (vars_of k1) (vars_of k2)"
  from m obtain r f' es where
    run: "\<And>k. files k = files k1 \<Longrightarrow> m k = (r, k\<lparr>files := f', calls := calls k @ es\<rparr>)"
    unfolding io_def by blast
  have 1: "m k1 = (r, k1\<lparr>files := f', calls := calls k1 @ es\<rparr>)" by (rule run) simp
  have 2: "m k2 = (r, k2\<lparr>files := f', calls := calls k2 @ es\<rparr>)" by (rule run) (use a in simp)
  have "vars_of (k1\<lparr>files := f', calls := calls k1 @ es\<rparr>) = vars_of k1"
       "vars_of (k2\<lparr>files := f', calls := calls k2 @ es\<rparr>) = vars_of k2"
    by (simp_all add: vars_of_def)
  with 1 2 a show "fst (m k1) = fst (m k2)
        \<and> files (snd (m k1)) = files (snd (m k2))
        \<and> (\<exists>es. calls (snd (m k1)) = calls k1 @ es \<and> calls (snd (m k2)) = calls k2 @ es)
        \<and> (fst (m k1) = Inr () \<longrightarrow> agree n (vars_of (snd (m k1))) (vars_of (snd (m k2))))"
    by simp
qed

lemma io_do_call_quiet: "mark_of e = None \<Longrightarrow> io (do_call L e) []"
  using io_do_call[of L e] by (simp add: marks_single)

lemma io_ask_quiet: "mark_of e = None \<Longrightarrow> io (ask e g) []"
  using io_ask[of e g] by (simp add: marks_single)

lemma io_display: "io (do_call L (Display h)) [Shown]"
  using io_do_call[of L "Display h"] by (simp add: marks_single)

lemma io_bind0: "io m [] \<Longrightarrow> (\<And>x. io (g x) S) \<Longrightarrow> io (py_bind m g) S"
  using io_bind[of m "[]" g S] by simp

lemma io_seq0: "io m [] \<Longrightarrow> io m' S \<Longrightarrow> io (py_seq m m') S"
  using io_seq[of m "[]" m' S] by simp

lemma io_case_prod: "(\<And>a b. io (h a b) S) \<Longrightarrow> io (case x of (a, b) \<Rightarrow> h a b) S"
  by (cases x) simp

lemmas io_quiet = io_bind0 io_seq0 io_case_prod io_do_call_quiet io_ask_quiet io_open_read
  io_open_write io_dump_call io_lift io_return io_display

lemma io_cell_install: "io (cell_install L) []"
  unfolding cell_install_def by (rule io_py_all) (auto intro: io_do_call_quiet)

lemma io_cell_gpu_check: "io (cell_gpu_check L) []"
  unfolding cell_gpu_check_def by (rule io_py_all) (auto intro: io_do_call_quiet)

lemma io_cell_drive: "io (cell_drive L) []"
  unfolding cell_drive_def by (rule io_py_all) (auto intro: io_do_call_quiet)

lemma io_cell_import_deeplabcut: "io (cell_import_deeplabcut L) []"
  unfolding cell_import_deeplabcut_def by (simp add: io_do_call_quiet)

lemma io_cell_install_mpld3: "io (cell_install_mpld3 L) []"
  unfolding cell_install_mpld3_def by (simp add: io_do_call_quiet)

lemma io_pose_cfg_edit: "io (pose_cfg_edit L p ckpt) []"
  unfolding pose_cfg_edit_def by (intro io_quiet) simp_all

lemma io_plot_body: "io (plot_body L x) []"
  unfolding plot_body_def by (intro io_quiet) simp_all

lemma io_cell_show_plots: "io (cell_show_plots L) [Shown]"
  unfolding cell_show_plots_def by (intro io_quiet io_for_each io_plot_body) simp_all

lemma io_show_first_frame: "io (show_first_frame L p) [Shown]"
  unfolding show_first_frame_def by (intro io_quiet) simp_all

section \<open>From the cells to the run\<close>



lemma rel_Nil: "rel n (py_all []) n"
  by (simp add: rel_def py_return_def)

lemma rel_Cons:
  assumes c: "rel n c n1" and cs: "rel n1 (py_all cs) n2"
  shows "rel n (py_all (c # cs)) n2"
  unfolding rel_def
proof (intro allI impI)
  fix k1 k2 assume a: "files k1 = files k2 \<and> agree n (vars_of k1) (vars_of k2)"
  obtain r a1 where c1: "c k1 = (r, a1)" by (cases "c k1")
  obtain r' a2 where c2: "c k2 = (r', a2)" by (cases "c k2")
  from c a c1 c2 have rr: "r' = r" and f: "files a1 = files a2"
    and ag: "r = Inr () \<longrightarrow> agree n1 (vars_of a1) (vars_of a2)"
    unfolding rel_def by fastforce+
  from c a c1 c2 obtain es where es: "calls a1 = calls k1 @ es" "calls a2 = calls k2 @ es"
    unfolding rel_def by fastforce
  show "fst (py_all (c # cs) k1) = fst (py_all (c # cs) k2)
        \<and> files (snd (py_all (c # cs) k1)) = files (snd (py_all (c # cs) k2))
        \<and> (\<exists>es. calls (snd (py_all (c # cs) k1)) = calls k1 @ es
               \<and> calls (snd (py_all (c # cs) k2)) = calls k2 @ es)
        \<and> (fst (py_all (c # cs) k1) = Inr () \<longrightarrow>
             agree n2 (vars_of (snd (py_all (c # cs) k1))) (vars_of (snd (py_all (c # cs) k2))))"
  proof (cases r)
    case (Inl e)
    with c1 c2 rr f es show ?thesis by (simp add: py_defs)
  next
    case (Inr u)
    with ag have ag': "agree n1 (vars_of a1) (vars_of a2)" by simp
    from c1 c2 rr Inr have run: "py_all (c # cs) k1 = py_all cs a1" "py_all (c # cs) k2 = py_all cs a2"
      by (simp_all add: py_defs)
    from cs f ag' have 1: "fst (py_all cs a1) = fst (py_all cs a2)"
      and 2: "files (snd (py_all cs a1)) = files (snd (py_all cs a2))"
      and 4: "fst (py_all cs a1) = Inr () \<longrightarrow>
             agree n2 (vars_of (snd (py_all cs a1))) (vars_of (snd (py_all cs a2)))"
      unfolding rel_def by blast+
    from cs f ag' obtain es' where es': "calls (snd (py_all cs a1)) = calls a1 @ es'"
        "calls (snd (py_all cs a2)) = calls a2 @ es'"
      unfolding rel_def by blast
    from es es' have "calls (snd (py_all cs a1)) = calls k1 @ (es @ es')"
        "calls (snd (py_all cs a2)) = calls k2 @ (es @ es')" by simp_all
    with run 1 2 4 show ?thesis by auto
  qed
qed

lemma marks_Cons:
  "marks (e # es) = (case mark_of e of None \<Rightarrow> marks es | Some m \<Rightarrow> m # marks es)"
  by (simp add: marks_def map_filter_def split: option.splits)

lemmas cell_simps = triple_def rel_def vars_of_def env1_def env2_def env3_def py_defs marks_Cons
  marks_Nil


lemma rel_cell_project: "rel n (cell_project pfn vt) 1"
  by (simp add: cell_simps cell_project_def)


lemma rel_cell_path_config: "rel 1 cell_path_config 2"
  by (auto simp: cell_simps cell_path_config_def split: option.splits)


lemma rel_cell_create_training_dataset: "rel 2 (cell_create_training_dataset L) 2"
  by (auto simp: cell_simps cell_create_training_dataset_def split: prod.splits option.splits)


lemma rel_cell_train: "rel 3 (cell_train L) 3"
  by (auto simp: cell_simps cell_train_def split: prod.splits option.splits)


lemma rel_cell_evaluate: "rel 3 (cell_evaluate L) 3"
  by (auto simp: cell_simps cell_evaluate_def split: prod.splits option.splits)


lemma rel_cell_analyze: "rel 3 (cell_analyze L) 3"
  by (auto simp: cell_simps cell_analyze_def split: prod.splits option.splits)


lemma rel_cell_plot_trajectories: "rel 3 (cell_plot_trajectories L) 3"
  by (auto simp: cell_simps cell_plot_trajectories_def split: prod.splits option.splits)


lemma rel_cell_create_labeled_video: "rel 3 (cell_create_labeled_video L) 3"
  by (auto simp: cell_simps cell_create_labeled_video_def split: prod.splits option.splits)

text \<open>The two cells that read a global and then run a statement that is \<open>io\<close>.\<close>

lemma cell_pose_cfg_cases:
  "cell_pose_cfg L sh k =
     (case effect L (Import ''yaml'') (files k) of
        (Some err, f1) \<Rightarrow> (Inl err, k\<lparr>calls := calls k @ [Import ''yaml''], files := f1\<rparr>)
      | (None, f1) \<Rightarrow>
          (case ProjectFolderName k of
             None \<Rightarrow> (Inl (NameError ''ProjectFolderName''),
                       k\<lparr>calls := calls k @ [Import ''yaml''], files := f1, shuffle := Some sh\<rparr>)
           | Some pfn \<Rightarrow>
               pose_cfg_edit L (pose_cfg_path_of pfn sh) (checkpoint_of pfn)
                 (k\<lparr>calls := calls k @ [Import ''yaml''], files := f1, shuffle := Some sh\<rparr>)))"
  by (simp add: cell_pose_cfg_def py_defs Let_def split: prod.splits option.splits)



lemma rel_cell_pose_cfg: "rel 2 (cell_pose_cfg L sh) 3"
  unfolding rel_def
proof (intro allI impI)
  fix k1 k2 assume a: "files k1 = files k2 \<and> agree 2 (vars_of k1) (vars_of k2)"
  then have f: "files k1 = files k2" and v: "ProjectFolderName k1 = ProjectFolderName k2"
    "VideoType k1 = VideoType k2" "videofile_path k1 = videofile_path k2"
    "path_config_file k1 = path_config_file k2"
    by (simp_all add: vars_of_def)
  obtain r1 f1 where eff: "effect L (Import ''yaml'') (files k1) = (r1, f1)"
    by (cases "effect L (Import ''yaml'') (files k1)")
  let ?a1 = "k1\<lparr>calls := calls k1 @ [Import ''yaml''], files := f1, shuffle := Some sh\<rparr>"
  let ?a2 = "k2\<lparr>calls := calls k2 @ [Import ''yaml''], files := f1, shuffle := Some sh\<rparr>"
  let ?goal = "fst (cell_pose_cfg L sh k1) = fst (cell_pose_cfg L sh k2)
        \<and> files (snd (cell_pose_cfg L sh k1)) = files (snd (cell_pose_cfg L sh k2))
        \<and> (\<exists>es. calls (snd (cell_pose_cfg L sh k1)) = calls k1 @ es
               \<and> calls (snd (cell_pose_cfg L sh k2)) = calls k2 @ es)
        \<and> (fst (cell_pose_cfg L sh k1) = Inr () \<longrightarrow>
             agree 3 (vars_of (snd (cell_pose_cfg L sh k1))) (vars_of (snd (cell_pose_cfg L sh k2))))"
  show ?goal
  proof (cases r1)
    case (Some err)
    with eff f show ?thesis by (simp add: cell_pose_cfg_cases)
  next
    case None
    show ?thesis
    proof (cases "ProjectFolderName k1")
      case n: None
      with None eff f v show ?thesis by (simp add: cell_pose_cfg_cases)
    next
      case (Some pfn)
      from io_pose_cfg_edit[of L "pose_cfg_path_of pfn sh" "checkpoint_of pfn"]
      obtain r f' es where
        run: "\<And>k. files k = f1 \<Longrightarrow> pose_cfg_edit L (pose_cfg_path_of pfn sh) (checkpoint_of pfn) k
                 = (r, k\<lparr>files := f', calls := calls k @ es\<rparr>)"
        unfolding io_def by blast
      have 1: "cell_pose_cfg L sh k1 = (r, ?a1\<lparr>files := f', calls := calls ?a1 @ es\<rparr>)"
        using eff None Some run[of ?a1] by (simp add: cell_pose_cfg_cases)
      have 2: "cell_pose_cfg L sh k2 = (r, ?a2\<lparr>files := f', calls := calls ?a2 @ es\<rparr>)"
        using eff None Some f v run[of ?a2] by (simp add: cell_pose_cfg_cases)
      show ?thesis unfolding 1 2 using v by (simp add: vars_of_def)
    qed
  qed
qed

lemma cell_show_video_cases:
  "cell_show_video L k =
     (case effect L (Import ''cv2'') (files k) of
        (Some err, f1) \<Rightarrow> (Inl err, k\<lparr>calls := calls k @ [Import ''cv2''], files := f1\<rparr>)
      | (None, f1) \<Rightarrow>
          (case effect L (Import ''matplotlib.pyplot'') f1 of
             (Some err, f2) \<Rightarrow>
               (Inl err, k\<lparr>calls := calls k @ [Import ''cv2'', Import ''matplotlib.pyplot''],
                           files := f2\<rparr>)
           | (None, f2) \<Rightarrow>
               (case shuffle k of
                  None \<Rightarrow> (Inl (NameError ''shuffle''),
                       k\<lparr>calls := calls k @ [Import ''cv2'', Import ''matplotlib.pyplot''],
                         files := f2\<rparr>)
                | Some s \<Rightarrow>
                    show_first_frame L (labelled_video_path_of s)
                      (k\<lparr>calls := calls k @ [Import ''cv2'', Import ''matplotlib.pyplot''],
                         files := f2\<rparr>))))"
  by (simp add: cell_show_video_def py_defs split: prod.splits option.splits)


lemma rel_cell_show_video: "rel 3 (cell_show_video L) 3"
  unfolding rel_def
proof (intro allI impI)
  fix k1 k2 assume a: "files k1 = files k2 \<and> agree 3 (vars_of k1) (vars_of k2)"
  then have f: "files k1 = files k2" and v: "vars_of k1 = vars_of k2"
    by (simp_all add: vars_of_def)
  then have s: "shuffle k1 = shuffle k2" by (simp add: vars_of_def)
  obtain r1 f1 where e1: "effect L (Import ''cv2'') (files k1) = (r1, f1)"
    by (cases "effect L (Import ''cv2'') (files k1)")
  obtain r2 f2 where e2: "effect L (Import ''matplotlib.pyplot'') f1 = (r2, f2)"
    by (cases "effect L (Import ''matplotlib.pyplot'') f1")
  let ?a1 = "k1\<lparr>calls := calls k1 @ [Import ''cv2'', Import ''matplotlib.pyplot''], files := f2\<rparr>"
  let ?a2 = "k2\<lparr>calls := calls k2 @ [Import ''cv2'', Import ''matplotlib.pyplot''], files := f2\<rparr>"
  let ?goal = "fst (cell_show_video L k1) = fst (cell_show_video L k2)
        \<and> files (snd (cell_show_video L k1)) = files (snd (cell_show_video L k2))
        \<and> (\<exists>es. calls (snd (cell_show_video L k1)) = calls k1 @ es
               \<and> calls (snd (cell_show_video L k2)) = calls k2 @ es)
        \<and> (fst (cell_show_video L k1) = Inr () \<longrightarrow>
             agree 3 (vars_of (snd (cell_show_video L k1))) (vars_of (snd (cell_show_video L k2))))"
  show ?goal
  proof (cases r1)
    case (Some err)
    with e1 f show ?thesis by (simp add: cell_show_video_cases)
  next
    case n1: None
    show ?thesis
    proof (cases r2)
      case (Some err)
      with e1 e2 n1 f show ?thesis by (simp add: cell_show_video_cases)
    next
      case n2: None
      show ?thesis
      proof (cases "shuffle k1")
        case None
        with e1 e2 n1 n2 f s show ?thesis by (simp add: cell_show_video_cases)
      next
        case (Some sh)
        from io_show_first_frame[of L "labelled_video_path_of sh"]
        obtain r f' es where
          run: "\<And>k. files k = f2 \<Longrightarrow> show_first_frame L (labelled_video_path_of sh) k
                 = (r, k\<lparr>files := f', calls := calls k @ es\<rparr>)"
          unfolding io_def by blast
        have 1: "cell_show_video L k1 = (r, ?a1\<lparr>files := f', calls := calls ?a1 @ es\<rparr>)"
          using e1 e2 n1 n2 Some run[of ?a1] by (simp add: cell_show_video_cases)
        have 2: "cell_show_video L k2 = (r, ?a2\<lparr>files := f', calls := calls ?a2 @ es\<rparr>)"
          using e1 e2 n1 n2 Some f s run[of ?a2] by (simp add: cell_show_video_cases)
        show ?thesis unfolding 1 2 using v by (simp add: vars_of_def)
      qed
    qed
  qed
qed


lemma notebook_rel: "rel 0 (run_notebook L pfn vt sh) 3"
  unfolding run_notebook_def notebook_def
  apply (rule rel_Cons, rule io_rel[OF io_cell_install])
  apply (rule rel_Cons, rule io_rel[OF io_cell_gpu_check])
  apply (rule rel_Cons, rule io_rel[OF io_cell_drive])
  apply (rule rel_Cons, rule rel_cell_project)
  apply (rule rel_Cons, rule io_rel[OF io_cell_import_deeplabcut])
  apply (rule rel_Cons, rule rel_cell_path_config)
  apply (rule rel_Cons, rule rel_cell_create_training_dataset)
  apply (rule rel_Cons, rule rel_cell_pose_cfg)
  apply (rule rel_Cons, rule rel_cell_train)
  apply (rule rel_Cons, rule rel_cell_evaluate)
  apply (rule rel_Cons, rule rel_cell_analyze)
  apply (rule rel_Cons, rule io_rel[OF io_cell_install_mpld3])
  apply (rule rel_Cons, rule rel_cell_plot_trajectories)
  apply (rule rel_Cons, rule io_rel[OF io_cell_show_plots])
  apply (rule rel_Cons, rule rel_cell_create_labeled_video)
  apply (rule rel_Cons, rule rel_cell_show_video)
  apply (rule rel_Nil)
  done

section \<open>The stand-in run\<close>

text \<open>
  The run of the notebook on the stand-in, evaluated once. The paths stay folded: the
  lookups the run makes are proved beforehand.
\<close>

lemmas cell_defs = run_notebook_def notebook_def cell_install_def cell_gpu_check_def cell_drive_def
  cell_project_def cell_import_deeplabcut_def cell_path_config_def cell_create_training_dataset_def
  cell_pose_cfg_def pose_cfg_edit_def cell_train_def cell_evaluate_def cell_analyze_def
  cell_install_mpld3_def cell_plot_trajectories_def cell_show_plots_def plot_body_def
  cell_create_labeled_video_def cell_show_video_def show_first_frame_def Let_def

lemma demo_files_pose:
  "map_of demo_files (pose_cfg_path_of ''workshop-network-2025'' 1) = Some demo_text"
  by (simp add: demo_files_def)

lemma demo_files_plots:
  "map_of demo_files (plot_root @ ''/plot-likelihood.png'') = Some ''PNG''"
  "map_of demo_files (plot_root @ ''/hist.png'') = Some ''PNG''"
  "map_of demo_files (plot_root @ ''/plot.png'') = Some ''PNG''"
  "map_of demo_files (plot_root @ ''/trajectory.png'') = Some ''PNG''"
  "map_of demo_files (labelled_video_path_of 1) = Some ''MP4''"
  by (simp_all add: demo_defs)

lemma demo_files_distinct:
  "plot_root @ ''/plot-likelihood.png'' \<noteq> pose_cfg_path_of ''workshop-network-2025'' 1"
  "plot_root @ ''/hist.png'' \<noteq> pose_cfg_path_of ''workshop-network-2025'' 1"
  "plot_root @ ''/plot.png'' \<noteq> pose_cfg_path_of ''workshop-network-2025'' 1"
  "plot_root @ ''/trajectory.png'' \<noteq> pose_cfg_path_of ''workshop-network-2025'' 1"
  "labelled_video_path_of 1 \<noteq> pose_cfg_path_of ''workshop-network-2025'' 1"
  by (simp_all add: demo_defs)

lemmas demo_run_defs = cell_defs py_defs demo_libs_def demo_kernel_def fresh_def demo_safe_load_def
  demo_dump_def demo_video_def images_def titles_def demo_files_pose demo_files_plots demo_files_distinct
  marks_Cons marks_Nil stages_def

lemma demo_run:
  "(case run_notebook demo_libs ''workshop-network-2025'' ''mp4'' 1 demo_kernel of
      (r, k') \<Rightarrow> r = Inr () \<and> marks (calls k') = stages ''workshop-network-2025'' ''mp4'' 1)"
  by (simp add: demo_run_defs)



section \<open>The order of the pipeline\<close>






section \<open>A run depends on the files only\<close>

text \<open>
  C9. Two runs over the same files, with the same library behaviour, end alike
  whatever globals and earlier calls the two kernels held: the same outcome, the same
  files afterwards (so the same rewritten pose configuration), the same calls with the
  same arguments, and after a complete run the same values of the globals. The one
  loop runs over a zip with two four-element literals.
\<close>

theorem run_depends_on_files_only:
  assumes "files k1 = files k2"
  shows "fst (run_notebook L pfn vt sh k1) = fst (run_notebook L pfn vt sh k2)
       \<and> files (snd (run_notebook L pfn vt sh k1)) = files (snd (run_notebook L pfn vt sh k2))
       \<and> (\<exists>es. calls (snd (run_notebook L pfn vt sh k1)) = calls k1 @ es
              \<and> calls (snd (run_notebook L pfn vt sh k2)) = calls k2 @ es)
       \<and> (fst (run_notebook L pfn vt sh k1) = Inr () \<longrightarrow>
            vars_of (snd (run_notebook L pfn vt sh k1)) = vars_of (snd (run_notebook L pfn vt sh k2)))
       \<and> length (zip (concat axes) (zip images titles)) = min (length (concat axes)) 4"
proof -
  have "agree 0 (vars_of k1) (vars_of k2)" by (cases "vars_of k1"; cases "vars_of k2") simp
  with assms notebook_rel[of L pfn vt sh]
  have "fst (run_notebook L pfn vt sh k1) = fst (run_notebook L pfn vt sh k2)
       \<and> files (snd (run_notebook L pfn vt sh k1)) = files (snd (run_notebook L pfn vt sh k2))
       \<and> (\<exists>es. calls (snd (run_notebook L pfn vt sh k1)) = calls k1 @ es
              \<and> calls (snd (run_notebook L pfn vt sh k2)) = calls k2 @ es)
       \<and> (fst (run_notebook L pfn vt sh k1) = Inr () \<longrightarrow>
            agree 3 (vars_of (snd (run_notebook L pfn vt sh k1)))
                    (vars_of (snd (run_notebook L pfn vt sh k2))))"
    unfolding rel_def by blast
  moreover have "\<And>v w. agree 3 v w \<Longrightarrow> v = w"
  proof -
    fix v w :: vars assume "agree 3 v w"
    then show "v = w" by (cases v; cases w) simp
  qed
  moreover have "length (zip (concat axes) (zip images titles)) = min (length (concat axes)) 4"
    by (simp add: images_def titles_def)
  ultimately show ?thesis by blast
qed

theorem run_depends_on_files_only_witness:
  "files demo_kernel = files (ready_kernel\<lparr>calls := [Magic ''matplotlib inline''], shuffle := Some 7\<rparr>)
 \<and> fst (run_notebook demo_libs ''workshop-network-2025'' ''mp4'' 1
          (ready_kernel\<lparr>calls := [Magic ''matplotlib inline''], shuffle := Some 7\<rparr>)) = Inr ()
 \<and> vars_of (snd (run_notebook demo_libs ''workshop-network-2025'' ''mp4'' 1
          (ready_kernel\<lparr>calls := [Magic ''matplotlib inline''], shuffle := Some 7\<rparr>)))
    = vars_of (snd (run_notebook demo_libs ''workshop-network-2025'' ''mp4'' 1 demo_kernel))"
proof -
  have f: "files demo_kernel
      = files (ready_kernel\<lparr>calls := [Magic ''matplotlib inline''], shuffle := Some 7\<rparr>)"
    by (simp add: ready_kernel_def)
  have ok: "fst (run_notebook demo_libs ''workshop-network-2025'' ''mp4'' 1 demo_kernel) = Inr ()"
    using demo_run by (simp split: prod.splits)
  show ?thesis
    using run_depends_on_files_only [OF f, where L = demo_libs and pfn = "''workshop-network-2025''" and vt = "''mp4''"
        and sh = 1 and axes = "[[Obj 1, Obj 2], [Obj 3, Obj 4]]"] f ok by simp
qed

section \<open>What the cells need to complete\<close>








end
